theory Spec2Isabelle
  imports Main "HOL-Library.Word"
begin

section \<open>The honeypot web service (honey\_flask.py): a shallow embedding\<close>

text \<open>
  The program is a Flask application: a \<^verbatim>\<open>before_request\<close> hook \<^verbatim>\<open>log_request\<close>
  that records every request through \<^verbatim>\<open>save_event\<close> (SQLite table \<^verbatim>\<open>events\<close>,
  with the text file \<^verbatim>\<open>honeypot_requests.log\<close> as fallback), and five view
  functions, of which \<^verbatim>\<open>upload\<close> stores files under \<^verbatim>\<open>quarantine/\<close>.

  Conventions of the embedding:
  \<^item> a Python \<^verbatim>\<open>str\<close> is the list of its Unicode code points, \<^verbatim>\<open>bytes\<close> a list of
    8-bit words, so that \<^verbatim>\<open>[:2000]\<close> is \<open>take 2000\<close> on either;
  \<^item> the files, the table and the logger output are submitted of a record \<open>world\<close>
    that every operation takes and returns;
  \<^item> what the outside decides (the clock, whether the database, the file system or
    the socket fails, and with which exception) is a record \<open>env\<close>, one field
    for each call site of the source;
  \<^item> a statement that may raise yields an \<open>outcome\<close>: \<open>Returns v w\<close>, or
    \<open>Raises e w\<close> with the world as it was when the exception left; a pure
    expression that may raise yields \<open>exn + 'a\<close>. A \<^verbatim>\<open>try/except Exception\<close> is the
    case distinction on that value.
\<close>

subsection \<open>Strings, bytes and exceptions\<close>

type_synonym pystr = "nat list"
type_synonym byte = "8 word"

text \<open>An ASCII literal of the source, as a Python string.\<close>

definition py :: "string \<Rightarrow> pystr" where
  "py s = map of_char s"

text \<open>
  A raised instance of (a subclass of) \<^verbatim>\<open>Exception\<close>, with the text \<^verbatim>\<open>str(e)\<close>
  that \<^verbatim>\<open>"%s" % e\<close> prints. These are the errors the libraries raise
  (\<^verbatim>\<open>sqlite3.Error\<close>, \<^verbatim>\<open>OSError\<close>, \<^verbatim>\<open>AttributeError\<close>, werkzeug's
  \<^verbatim>\<open>HTTPException\<close>); every handler of the source is \<^verbatim>\<open>except Exception\<close>.
\<close>

datatype exn = Exception pystr

fun exn_str :: "exn \<Rightarrow> pystr" where
  "exn_str (Exception msg) = msg"

subsection \<open>\<^verbatim>\<open>bytes.decode('utf-8', 'replace')\<close>\<close>

text \<open>
  CPython's decoder: an ill-formed sequence is replaced by one U+FFFD for its longest
  prefix that could still start a well-formed sequence, and decoding resumes at the
  offending byte. Overlong forms (lead bytes C0, C1, second byte below A0 after E0 or
  below 90 after F0), surrogates (ED A0..BF) and values above U+10FFFF are ill-formed.
\<close>

definition U_FFFD :: nat where
  "U_FFFD = 0xFFFD"

definition is_continuation :: "byte \<Rightarrow> bool" where
  "is_continuation c \<longleftrightarrow> 0x80 \<le> c \<and> c \<le> 0xBF"

definition second_ok :: "byte \<Rightarrow> byte \<Rightarrow> bool" where
  "second_ok b c =
     (if b = 0xE0 then 0xA0 \<le> c \<and> c \<le> 0xBF
      else if b = 0xED then 0x80 \<le> c \<and> c \<le> 0x9F
      else if b = 0xF0 then 0x90 \<le> c \<and> c \<le> 0xBF
      else if b = 0xF4 then 0x80 \<le> c \<and> c \<le> 0x8F
      else is_continuation c)"

fun decode_utf8_replace :: "byte list \<Rightarrow> pystr" where
  "decode_utf8_replace [] = []"
| "decode_utf8_replace (b # bs) =
     (if b < 0x80 then unat b # decode_utf8_replace bs
      else if 0xC2 \<le> b \<and> b \<le> 0xDF then
        (case bs of
           [] \<Rightarrow> [U_FFFD]
         | c # r \<Rightarrow>
             if is_continuation c
             then ((unat b - 0xC0) * 64 + (unat c - 0x80)) # decode_utf8_replace r
             else U_FFFD # decode_utf8_replace bs)
      else if 0xE0 \<le> b \<and> b \<le> 0xEF then
        (case bs of
           [] \<Rightarrow> [U_FFFD]
         | c # r \<Rightarrow>
             if \<not> second_ok b c then U_FFFD # decode_utf8_replace bs
             else (case r of
                     [] \<Rightarrow> [U_FFFD]
                   | d # r' \<Rightarrow>
                       if is_continuation d
                       then ((unat b - 0xE0) * 4096 + (unat c - 0x80) * 64 + (unat d - 0x80))
                              # decode_utf8_replace r'
                       else U_FFFD # decode_utf8_replace r))
      else if 0xF0 \<le> b \<and> b \<le> 0xF4 then
        (case bs of
           [] \<Rightarrow> [U_FFFD]
         | c # r \<Rightarrow>
             if \<not> second_ok b c then U_FFFD # decode_utf8_replace bs
             else (case r of
                     [] \<Rightarrow> [U_FFFD]
                   | d # r' \<Rightarrow>
                       if \<not> is_continuation d then U_FFFD # decode_utf8_replace r
                       else (case r' of
                               [] \<Rightarrow> [U_FFFD]
                             | e # r'' \<Rightarrow>
                                 if is_continuation e
                                 then ((unat b - 0xF0) * 262144 + (unat c - 0x80) * 4096
                                         + (unat d - 0x80) * 64 + (unat e - 0x80))
                                        # decode_utf8_replace r''
                                 else U_FFFD # decode_utf8_replace r')))
      else U_FFFD # decode_utf8_replace bs)"

subsection \<open>\<^verbatim>\<open>json.dumps\<close> of a dictionary of strings\<close>

text \<open>
  With the default \<^verbatim>\<open>ensure_ascii=True\<close>: backslash and double quote are escaped,
  the characters from space to tilde stand for themselves, \<^verbatim>\<open>\b \f \n \r \t\<close> have their
  short forms, and every other code point is written \<^verbatim>\<open>\uXXXX\<close> (a surrogate pair
  above U+FFFF). The items keep the insertion order of the dictionary, which is why
  the dictionary is an association list here.
\<close>

definition hex_digit :: "nat \<Rightarrow> nat" where
  "hex_digit d = (if d < 10 then 48 + d else 87 + d)"

definition u_escape :: "nat \<Rightarrow> pystr" where
  "u_escape n =
     [92, 117, hex_digit (n div 4096 mod 16), hex_digit (n div 256 mod 16),
      hex_digit (n div 16 mod 16), hex_digit (n mod 16)]"

definition json_escape_char :: "nat \<Rightarrow> pystr" where
  "json_escape_char c =
     (if c = 92 then [92, 92]
      else if c = 34 then [92, 34]
      else if 32 \<le> c \<and> c \<le> 126 then [c]
      else if c = 8 then [92, 98]
      else if c = 12 then [92, 102]
      else if c = 10 then [92, 110]
      else if c = 13 then [92, 114]
      else if c = 9 then [92, 116]
      else if c < 0x10000 then u_escape c
      else u_escape (0xD800 + (c - 0x10000) div 1024 mod 1024)
             @ u_escape (0xDC00 + (c - 0x10000) mod 1024))"

definition json_string :: "pystr \<Rightarrow> pystr" where
  "json_string s = [34] @ concat (map json_escape_char s) @ [34]"

fun json_items :: "(pystr \<times> pystr) list \<Rightarrow> pystr" where
  "json_items [] = []"
| "json_items [(k, v)] = json_string k @ py '': '' @ json_string v"
| "json_items ((k, v) # kvs) = json_string k @ py '': '' @ json_string v @ py '', '' @ json_items kvs"

definition json_dumps :: "(pystr \<times> pystr) list \<Rightarrow> pystr" where
  "json_dumps d = py ''{'' @ json_items d @ py ''}''"

subsection \<open>\<^verbatim>\<open>str.replace\<close>, \<^verbatim>\<open>str(int)\<close>, \<^verbatim>\<open>os.path.join\<close>\<close>

text \<open>
  \<^verbatim>\<open>s.replace(old, new)\<close> for a non-empty \<open>old\<close>: left to right, without overlap. The
  counter is the number of characters of a match still to be skipped.
\<close>

fun replace_from :: "pystr \<Rightarrow> pystr \<Rightarrow> nat \<Rightarrow> pystr \<Rightarrow> pystr" where
  "replace_from old new k [] = []"
| "replace_from old new (Suc k) (c # cs) = replace_from old new k cs"
| "replace_from old new 0 (c # cs) =
     (if old \<noteq> [] \<and> take (length old) (c # cs) = old
      then new @ replace_from old new (length old - 1) cs
      else c # replace_from old new 0 cs)"

definition replace :: "pystr \<Rightarrow> pystr \<Rightarrow> pystr \<Rightarrow> pystr" where
  "replace old new s = replace_from old new 0 s"

function digits :: "nat \<Rightarrow> pystr" where
  "digits n = (if n < 10 then [48 + n] else digits (n div 10) @ [48 + n mod 10])"
  by pat_completeness auto
termination
  by (relation "measure id") auto

declare digits.simps [simp del]

definition str_int :: "int \<Rightarrow> pystr" where
  "str_int i = (if i < 0 then 45 # digits (nat (- i)) else digits (nat i))"

text \<open>\<^verbatim>\<open>posixpath.join(a, b)\<close>: an absolute second component discards the first.\<close>

definition os_path_join :: "pystr \<Rightarrow> pystr \<Rightarrow> pystr" where
  "os_path_join a b =
     (if b \<noteq> [] \<and> hd b = 47 then b
      else if a = [] \<or> last a = 47 then a @ b
      else a @ [47] @ b)"

subsection \<open>\<^verbatim>\<open>werkzeug.utils.secure_filename\<close>\<close>

text \<open>
  The library function the upload handler calls, on a POSIX host (\<^verbatim>\<open>os.sep\<close> is the
  slash, there is no \<^verbatim>\<open>os.path.altsep\<close>, and the test for Windows device names
  does not apply):
  \<^verbatim>\<open>
  filename = unicodedata.normalize("NFKD", filename)
  filename = filename.encode("ascii", "ignore").decode("ascii")
  filename = filename.replace("/", " ")
  filename = re.sub(r"[^A-Za-z0-9_.-]", "", "_".join(filename.split())).strip("._")
  \<close>
  The Unicode normalisation table is not part of the program and is a parameter
  \<open>nfkd\<close>; it is the identity on ASCII strings.
\<close>

definition is_space :: "nat \<Rightarrow> bool" where
  "is_space c \<longleftrightarrow> (9 \<le> c \<and> c \<le> 13) \<or> (28 \<le> c \<and> c \<le> 32)"

fun split_words :: "pystr \<Rightarrow> pystr \<Rightarrow> pystr list" where
  "split_words cur [] = (if cur = [] then [] else [cur])"
| "split_words cur (c # cs) =
     (if is_space c
      then (if cur = [] then split_words [] cs else cur # split_words [] cs)
      else split_words (cur @ [c]) cs)"

definition split :: "pystr \<Rightarrow> pystr list" where
  "split s = split_words [] s"

fun join :: "pystr \<Rightarrow> pystr list \<Rightarrow> pystr" where
  "join sep [] = []"
| "join sep [x] = x"
| "join sep (x # y # xs) = x @ sep @ join sep (y # xs)"

definition filename_char :: "nat \<Rightarrow> bool" where
  "filename_char c \<longleftrightarrow>
     (65 \<le> c \<and> c \<le> 90) \<or> (97 \<le> c \<and> c \<le> 122) \<or> (48 \<le> c \<and> c \<le> 57)
     \<or> c = 95 \<or> c = 46 \<or> c = 45"

definition strip :: "pystr \<Rightarrow> pystr \<Rightarrow> pystr" where
  "strip chars s =
     rev (dropWhile (\<lambda>c. c \<in> set chars) (rev (dropWhile (\<lambda>c. c \<in> set chars) s)))"

definition secure_filename :: "(pystr \<Rightarrow> pystr) \<Rightarrow> pystr \<Rightarrow> pystr" where
  "secure_filename nfkd filename =
     (let normalized = nfkd filename;
          ascii = filter (\<lambda>c. c < 128) normalized;
          spaced = map (\<lambda>c. if c = 47 then 32 else c) ascii
      in strip (py ''._'') (filter filename_char (join (py ''_'') (split spaced))))"

subsection \<open>Requests, the world and its failures\<close>

text \<open>
  The \<^verbatim>\<open>headers\<close> argument of \<^verbatim>\<open>save_event\<close>: a mapping, given by what its \<^verbatim>\<open>get\<close>
  finds, or any other object, on which \<^verbatim>\<open>.get\<close> raises (\<^verbatim>\<open>None.get\<close> is an
  \<^verbatim>\<open>AttributeError\<close>). The \<^verbatim>\<open>body\<close> argument: a \<^verbatim>\<open>bytes\<close> value, or any other object,
  given by what \<^verbatim>\<open>str(body)\<close> does.
\<close>

datatype headers = Headers "pystr \<Rightarrow> pystr option" | Malformed exn

datatype body = Bytes "byte list" | Object "exn + pystr"

text \<open>
  werkzeug's \<^verbatim>\<open>FileStorage\<close>: the submitted file name and the content stream.
\<close>

record file_storage =
  fs_filename :: "pystr option"
  fs_stream :: "byte list"

text \<open>
  What the hook and the view functions read from \<^verbatim>\<open>flask.request\<close>.
  \<^verbatim>\<open>request.get_data()\<close> reads the socket and may raise. \<^verbatim>\<open>request.form\<close> and
  \<^verbatim>\<open>request.files\<close> parse the body when a view first reads them, and raise when the
  body cannot be parsed within werkzeug's limits (\<^verbatim>\<open>RequestEntityTooLarge\<close> for a body
  above \<^verbatim>\<open>MAX_CONTENT_LENGTH\<close>, for too many parts or for an oversized field); otherwise
  they are the mappings of the submitted submitted and files.
\<close>

record request =
  req_remote_addr :: "pystr option"
  req_headers :: headers
  req_method :: pystr
  req_path :: pystr
  req_get_data :: "exn + byte list"
  req_form :: "exn + (pystr \<Rightarrow> pystr option)"
  req_files :: "exn + (pystr \<Rightarrow> file_storage option)"

text \<open>A row of the table \<^verbatim>\<open>events\<close> created by \<^verbatim>\<open>init_db\<close>.\<close>

record event =
  ev_id :: nat
  ev_ts :: pystr
  ev_src_ip :: pystr
  ev_xff :: pystr
  ev_method :: pystr
  ev_path :: pystr
  ev_headers :: pystr
  ev_body :: pystr

text \<open>
  The state outside the process: the rows of \<^verbatim>\<open>events\<close> and the last identity given
  out (\<^verbatim>\<open>AUTOINCREMENT\<close>), the text of \<^verbatim>\<open>LOGFILE\<close>, the files by path, and the
  lines written by \<^verbatim>\<open>app.logger\<close>.
\<close>

record world =
  db_events :: "event list"
  db_sequence :: nat
  logfile :: pystr
  file_system :: "pystr \<Rightarrow> byte list option"
  app_log :: "pystr list"

text \<open>
  What the outside decides during one request, one field for each call site:
  \<open>None\<close> is success, \<open>Some e\<close> the exception raised. A failed write leaves the
  file or table as it was.
\<close>

record env =
  utcnow_capture :: pystr
  db_error :: "exn option"
  log_write_error :: "exn option"
  time_time :: int
  makedirs_error :: "exn option"
  file_save_error :: "exn option"
  utcnow_upload :: pystr
  note_write_error :: "exn option"
  unicode_nfkd :: "pystr \<Rightarrow> pystr"

datatype 'a outcome = Returns 'a world | Raises exn world

type_synonym response = "pystr \<times> nat"

definition QUARANTINE_DIR :: pystr where
  "QUARANTINE_DIR = py ''quarantine''"

subsection \<open>The calls into the outside\<close>

text \<open>
  Lines 60 to 66, \<^verbatim>\<open>connect\<close>, \<^verbatim>\<open>cursor\<close>, \<^verbatim>\<open>execute\<close>, \<^verbatim>\<open>commit\<close>, \<^verbatim>\<open>close\<close>, as one
  transaction: either the row is committed with the next identity, or one of the
  calls raises and the table is as before.
\<close>

definition sqlite_insert ::
  "exn option \<Rightarrow> pystr \<times> pystr \<times> pystr \<times> pystr \<times> pystr \<times> pystr \<times> pystr \<Rightarrow> world \<Rightarrow> unit outcome" where
  "sqlite_insert err row w =
     (case err of
        Some e \<Rightarrow> Raises e w
      | None \<Rightarrow>
          (case row of (ts, src_ip, xff, method, path, headers_json, body_text) \<Rightarrow>
             Returns ()
               (w\<lparr>db_events := db_events w @
                     [\<lparr>ev_id = Suc (db_sequence w), ev_ts = ts, ev_src_ip = src_ip, ev_xff = xff,
                       ev_method = method, ev_path = path, ev_headers = headers_json,
                       ev_body = body_text\<rparr>],
                   db_sequence := Suc (db_sequence w)\<rparr>)))"

text \<open>\<^verbatim>\<open>with open(LOGFILE, 'a', encoding='utf8') as f: f.write(text)\<close>\<close>

definition append_logfile :: "exn option \<Rightarrow> pystr \<Rightarrow> world \<Rightarrow> unit outcome" where
  "append_logfile err text w =
     (case err of
        Some e \<Rightarrow> Raises e w
      | None \<Rightarrow> Returns () (w\<lparr>logfile := logfile w @ text\<rparr>))"

text \<open>
  \<^verbatim>\<open>app.logger.error(msg, e)\<close>. Python's \<^verbatim>\<open>logging\<close> handles the errors of its
  handlers itself, so the call returns; the source's guards around it are kept
  in the callers as they are written.
\<close>

definition logger_error :: "pystr \<Rightarrow> world \<Rightarrow> unit outcome" where
  "logger_error msg w = Returns () (w\<lparr>app_log := app_log w @ [msg]\<rparr>)"

text \<open>\<^verbatim>\<open>os.makedirs(QUARANTINE_DIR, exist_ok=True)\<close>; directories are not part of \<open>world\<close>.\<close>

definition os_makedirs :: "exn option \<Rightarrow> world \<Rightarrow> unit outcome" where
  "os_makedirs err w = (case err of Some e \<Rightarrow> Raises e w | None \<Rightarrow> Returns () w)"

text \<open>\<^verbatim>\<open>file.save(path)\<close>: writes the stream to \<open>path\<close>, replacing a file of that name.\<close>

definition file_save :: "exn option \<Rightarrow> file_storage \<Rightarrow> pystr \<Rightarrow> world \<Rightarrow> unit outcome" where
  "file_save err file path w =
     (case err of
        Some e \<Rightarrow> Raises e w
      | None \<Rightarrow> Returns () (w\<lparr>file_system := (file_system w)(path \<mapsto> fs_stream file)\<rparr>))"

fun headers_get :: "headers \<Rightarrow> pystr \<Rightarrow> pystr \<Rightarrow> exn + pystr" where
  "headers_get (Headers m) key dflt = Inr (case m key of None \<Rightarrow> dflt | Some v \<Rightarrow> v)"
| "headers_get (Malformed e) key dflt = Inl e"

text \<open>Python's \<^verbatim>\<open>a or b\<close> on an optional string: \<open>b\<close> when \<open>a\<close> is \<^verbatim>\<open>None\<close> or empty.\<close>

definition or_else :: "pystr option \<Rightarrow> pystr \<Rightarrow> pystr" where
  "or_else a b = (case a of None \<Rightarrow> b | Some s \<Rightarrow> if s = [] then b else s)"

text \<open>An f-string field \<^verbatim>\<open>{x}\<close> for an optional string: \<^verbatim>\<open>None\<close> prints as its name.\<close>

definition format_field :: "pystr option \<Rightarrow> pystr" where
  "format_field x = (case x of None \<Rightarrow> py ''None'' | Some s \<Rightarrow> s)"

subsection \<open>\<^verbatim>\<open>save_event\<close>\<close>

text \<open>Lines 40 to 48: the four lookups in the order of the dictionary display.\<close>

definition headers_dict_of :: "headers \<Rightarrow> (pystr \<times> pystr) list" where
  "headers_dict_of headers =
     (case
        (case headers_get headers (py ''User-Agent'') [] of
           Inl e \<Rightarrow> Inl e
         | Inr user_agent \<Rightarrow>
        (case headers_get headers (py ''X-Forwarded-For'') [] of
           Inl e \<Rightarrow> Inl e
         | Inr forwarded \<Rightarrow>
        (case headers_get headers (py ''Content-Type'') [] of
           Inl e \<Rightarrow> Inl e
         | Inr content_type \<Rightarrow>
        (case headers_get headers (py ''Accept'') [] of
           Inl e \<Rightarrow> Inl e
         | Inr accept \<Rightarrow>
             Inr [(py ''User-Agent'', user_agent), (py ''X-Forwarded-For'', forwarded),
                  (py ''Content-Type'', content_type), (py ''Accept'', accept)]))))
      of Inl e \<Rightarrow> [] | Inr headers_dict \<Rightarrow> headers_dict)"

text \<open>Lines 51 to 57.\<close>

definition body_text_of :: "body \<Rightarrow> pystr" where
  "body_text_of body =
     (case
        (case body of
           Bytes b \<Rightarrow> Inr (take 2000 (decode_utf8_replace b))
         | Object str_result \<Rightarrow>
             (case str_result of Inl e \<Rightarrow> Inl e | Inr s \<Rightarrow> Inr (take 2000 s)))
      of Inl e \<Rightarrow> [] | Inr body_text \<Rightarrow> body_text)"

text \<open>The f-string of line 71.\<close>

definition fallback_line ::
  "pystr \<Rightarrow> pystr \<Rightarrow> pystr \<Rightarrow> pystr \<Rightarrow> pystr \<Rightarrow> pystr \<Rightarrow> pystr \<Rightarrow> pystr" where
  "fallback_line ts src_ip xff method path headers_json body_text =
     ts @ py '' | '' @ src_ip @ py '' | '' @ xff @ py '' | '' @ method @ py '' '' @ path
       @ py '' | headers:'' @ headers_json @ py '' | body:'' @ body_text @ [10]"

definition save_event ::
  "env \<Rightarrow> pystr \<Rightarrow> pystr \<Rightarrow> pystr \<Rightarrow> pystr \<Rightarrow> headers \<Rightarrow> body \<Rightarrow> world \<Rightarrow> unit outcome" where
  "save_event env src_ip xff method path headers body w =
     (let ts = replace (py ''+00:00'') (py ''Z'') (utcnow_capture env);
          headers_dict = headers_dict_of headers;
          body_text = body_text_of body
      in case sqlite_insert (db_error env)
                (ts, src_ip, xff, method, path, json_dumps headers_dict, body_text) w of
           Returns u w1 \<Rightarrow> Returns () w1
         | Raises e w1 \<Rightarrow>
             (let w2 =
                (case append_logfile (log_write_error env)
                        (fallback_line ts src_ip xff method path (json_dumps headers_dict) body_text)
                        w1 of
                   Returns u w' \<Rightarrow> w'
                 | Raises e' w' \<Rightarrow> w')
              in case logger_error (py ''Logging failure: '' @ exn_str e) w2 of
                   Returns u w3 \<Rightarrow> Returns () w3
                 | Raises e' w3 \<Rightarrow> Returns () w3))"

subsection \<open>The hook \<^verbatim>\<open>log_request\<close>\<close>

definition log_request :: "env \<Rightarrow> request \<Rightarrow> world \<Rightarrow> unit outcome" where
  "log_request env request w =
     (case
        (let src_ip = or_else (req_remote_addr request) (py ''unknown'')
         in case headers_get (req_headers request) (py ''X-Forwarded-For'') [] of
              Inl e \<Rightarrow> Raises e w
            | Inr xff \<Rightarrow>
                (let method = req_method request;
                     path = req_path request;
                     headers = req_headers request
                 in case req_get_data request of
                      Inl e \<Rightarrow> Raises e w
                    | Inr data \<Rightarrow>
                        save_event env src_ip xff method path headers (Bytes (take 2000 data)) w))
      of
        Returns u w1 \<Rightarrow> Returns () w1
      | Raises e w1 \<Rightarrow>
          (case logger_error (py ''Logging failure: '' @ exn_str e) w1 of
             Returns u w2 \<Rightarrow> Returns () w2
           | Raises e' w2 \<Rightarrow> Returns () w2))"

subsection \<open>The view functions\<close>

definition ADMIN_PAGE :: pystr where
  \<open>ADMIN_PAGE =
     [10] @ py ''<!doctype html>'' @ [10]
     @ py ''<title>Admin Panel</title>'' @ [10]
     @ py ''<h2>Admin Login</h2>'' @ [10]
     @ py ''<form method="post" action="/admin/login">'' @ [10]
     @ py ''  <input name="username" placeholder="username"/><br/>'' @ [10]
     @ py ''  <input name="password" placeholder="password" type="password"/><br/>'' @ [10]
     @ py ''  <button type="submit">Login</button>'' @ [10]
     @ py ''</form>'' @ [10]\<close>

definition GENERIC_PAGE :: pystr where
  "GENERIC_PAGE = py ''<h1>Welcome</h1><p>This server is under maintenance.</p>''"

text \<open>A view function that returns a string alone answers with status 200.\<close>

definition index :: "world \<Rightarrow> response outcome" where
  "index w = Returns (GENERIC_PAGE, 200) w"

definition admin :: "world \<Rightarrow> response outcome" where
  "admin w = Returns (ADMIN_PAGE, 200) w"

definition admin_login :: "request \<Rightarrow> world \<Rightarrow> response outcome" where
  "admin_login request w =
     (if req_method request = py ''GET'' then Returns (ADMIN_PAGE, 200) w
      else
        (case req_form request of
           Inl e \<Rightarrow> Raises e w
         | Inr form \<Rightarrow>
             (let username = form (py ''username'');
                  password = form (py ''password'')
              in Returns (py ''<p>Login failed for '' @ format_field username @ py ''</p>'', 401) w)))"

definition api_data :: "world \<Rightarrow> response outcome" where
  "api_data w = Returns (json_dumps [(py ''error'', py ''not_found'')], 404) w"

text \<open>
  \<^verbatim>\<open>if file:\<close> on the result of \<^verbatim>\<open>request.files.get('file')\<close>: \<^verbatim>\<open>None\<close> is false, and
  a \<^verbatim>\<open>FileStorage\<close> is true exactly when its file name is (its \<^verbatim>\<open>__bool__\<close> is
  \<^verbatim>\<open>bool(self.filename)\<close>).
\<close>

definition file_truthy :: "file_storage \<Rightarrow> bool" where
  "file_truthy file = (case fs_filename file of None \<Rightarrow> False | Some name \<Rightarrow> name \<noteq> [])"

definition upload :: "env \<Rightarrow> request \<Rightarrow> world \<Rightarrow> response outcome" where
  "upload env request w =
     (case req_files request of
        Inl e \<Rightarrow> Raises e w
      | Inr files \<Rightarrow>
     (case files (py ''file'') of
        None \<Rightarrow> Returns (py ''OK'', 200) w
      | Some file \<Rightarrow>
          if file_truthy file then
            (let fname = secure_filename (unicode_nfkd env) (or_else (fs_filename file) (py ''upload''))
             in case os_makedirs (makedirs_error env) w of
                  Raises e w1 \<Rightarrow> Raises e w1
                | Returns u w1 \<Rightarrow>
                    (let path = os_path_join QUARANTINE_DIR
                                  (str_int (time_time env) @ py ''_'' @ fname)
                     in case
                          (case file_save (file_save_error env) file path w1 of
                             Raises e w2 \<Rightarrow> Raises e w2
                           | Returns u w2 \<Rightarrow>
                               append_logfile (note_write_error env)
                                 (utcnow_upload env @ py '' | uploaded_file_saved: '' @ path @ [10])
                                 w2)
                        of
                          Returns u w3 \<Rightarrow> Returns (py ''OK'', 200) w3
                        | Raises e w3 \<Rightarrow>
                            (case logger_error (py ''Failed to save upload: '' @ exn_str e) w3 of
                               Raises e' w4 \<Rightarrow> Raises e' w4
                             | Returns u w4 \<Rightarrow> Returns (py ''Failed'', 500) w4)))
          else Returns (py ''OK'', 200) w))"

subsection \<open>Dispatch\<close>

text \<open>
  The endpoint is the one the framework's URL map has matched. Flask runs the
  \<^verbatim>\<open>before_request\<close> functions first; when they return \<^verbatim>\<open>None\<close>, as \<^verbatim>\<open>log_request\<close>
  does (it has no \<^verbatim>\<open>return\<close>), the view function makes the response; an exception
  leaving either goes to the framework's error handling.
\<close>

datatype endpoint = Index | Admin | Admin_login | Api_data | Upload

fun dispatch_request :: "endpoint \<Rightarrow> env \<Rightarrow> request \<Rightarrow> world \<Rightarrow> response outcome" where
  "dispatch_request Index env request w = index w"
| "dispatch_request Admin env request w = admin w"
| "dispatch_request Admin_login env request w = admin_login request w"
| "dispatch_request Api_data env request w = api_data w"
| "dispatch_request Upload env request w = upload env request w"

definition full_dispatch_request ::
  "endpoint \<Rightarrow> env \<Rightarrow> request \<Rightarrow> world \<Rightarrow> response outcome" where
  "full_dispatch_request ep env request w =
     (case log_request env request w of
        Raises e w1 \<Rightarrow> Raises e w1
      | Returns u w1 \<Rightarrow> dispatch_request ep env request w1)"

text \<open>What the remote peer can observe of an outcome: the response, or that the view raised.\<close>

fun observable :: "'a outcome \<Rightarrow> exn + 'a" where
  "observable (Returns v w) = Inr v"
| "observable (Raises e w) = Inl e"

fun world_of :: "'a outcome \<Rightarrow> world" where
  "world_of (Returns v w) = w"
| "world_of (Raises e w) = w"

subsection \<open>Sample inputs\<close>

text \<open>
  A run in which nothing outside fails, an empty world, the login attempt and the
  upload of the specification's scenarios. The later examples vary them by record
  update.
\<close>

definition sample_env :: env where
  "sample_env =
     \<lparr>utcnow_capture = py ''2026-01-01T00:00:00+00:00'',
      db_error = None,
      log_write_error = None,
      time_time = 1700000000,
      makedirs_error = None,
      file_save_error = None,
      utcnow_upload = py ''2026-01-01T00:00:01+00:00'',
      note_write_error = None,
      unicode_nfkd = (\<lambda>s. s)\<rparr>"

definition sample_world :: world where
  "sample_world =
     \<lparr>db_events = [], db_sequence = 0, logfile = [], file_system = Map.empty, app_log = []\<rparr>"

definition sample_headers :: headers where
  "sample_headers = Headers [py ''User-Agent'' \<mapsto> py ''curl/8.0'', py ''Host'' \<mapsto> py ''h'']"

definition login_request :: request where
  "login_request =
     \<lparr>req_remote_addr = Some (py ''10.0.0.7''),
      req_headers = sample_headers,
      req_method = py ''POST'',
      req_path = py ''/admin/login'',
      req_get_data = Inr (map of_char ''username=admin&password=x''),
      req_form = Inr [py ''username'' \<mapsto> py ''admin'', py ''password'' \<mapsto> py ''x''],
      req_files = Inr Map.empty\<rparr>"

definition sample_file :: file_storage where
  "sample_file = \<lparr>fs_filename = Some (py ''../../etc/passwd''), fs_stream = [104, 101, 108, 108, 111]\<rparr>"

definition upload_request :: "file_storage \<Rightarrow> request" where
  "upload_request file =
     \<lparr>req_remote_addr = None,
      req_headers = sample_headers,
      req_method = py ''POST'',
      req_path = py ''/upload'',
      req_get_data = Inr [],
      req_form = Inr Map.empty,
      req_files = Inr [py ''file'' \<mapsto> file]\<rparr>"

definition disk_full :: exn where
  "disk_full = Exception (py ''[Errno 28] No space left on device'')"


definition too_large :: exn where
  "too_large = Exception (py ''413 Request Entity Too Large'')"

section \<open>Properties\<close>

subsection \<open>Evaluation rules\<close>

text \<open>Literals stay folded in the general proofs; \<open>py_eval\<close> spells them out in the examples.\<close>

lemma py_Nil: "py [] = []"
  by (simp add: py_def)

lemma py_Cons: "py (c # cs) = of_char c # py cs"
  by (simp add: py_def)

lemmas py_eval = py_Nil py_Cons

lemma sqlite_insert_cases:
  "sqlite_insert None (ts, src_ip, xff, method, path, hj, bt) w =
     Returns () (w\<lparr>db_events := db_events w @
        [\<lparr>ev_id = Suc (db_sequence w), ev_ts = ts, ev_src_ip = src_ip, ev_xff = xff,
          ev_method = method, ev_path = path, ev_headers = hj, ev_body = bt\<rparr>],
        db_sequence := Suc (db_sequence w)\<rparr>)"
  "sqlite_insert (Some e) row w = Raises e w"
  by (simp_all add: sqlite_insert_def)

lemma append_logfile_cases:
  "append_logfile None text w = Returns () (w\<lparr>logfile := logfile w @ text\<rparr>)"
  "append_logfile (Some e) text w = Raises e w"
  by (simp_all add: append_logfile_def)

subsection \<open>The capture pipeline absorbs every failure\<close>

lemma save_event_returns:
  "\<exists>w'. save_event env src_ip xff method path headers body w = Returns () w'"
proof (cases "db_error env")
  case None
  then show ?thesis by (simp add: save_event_def Let_def sqlite_insert_cases)
next
  case (Some e)
  then show ?thesis
    by (cases "log_write_error env")
       (simp_all add: save_event_def Let_def sqlite_insert_cases append_logfile_cases logger_error_def)
qed

lemma log_request_returns: "\<exists>w'. log_request env request w = Returns () w'"
proof (cases "headers_get (req_headers request) (py ''X-Forwarded-For'') []")
  case (Inl e)
  then show ?thesis by (simp add: log_request_def Let_def logger_error_def)
next
  case xff: (Inr xff)
  show ?thesis
  proof (cases "req_get_data request")
    case (Inl e)
    with xff show ?thesis by (simp add: log_request_def Let_def logger_error_def)
  next
    case (Inr data)
    obtain w' where "save_event env (or_else (req_remote_addr request) (py ''unknown'')) xff
        (req_method request) (req_path request) (req_headers request) (Bytes (take 2000 data)) w
        = Returns () w'"
      using save_event_returns by blast
    with xff Inr show ?thesis by (simp add: log_request_def Let_def)
  qed
qed

lemma log_request_calls_save_event:
  "headers_get (req_headers request) (py ''X-Forwarded-For'') [] = Inr xff \<Longrightarrow>
   req_get_data request = Inr data \<Longrightarrow>
   log_request env request w =
     save_event env (or_else (req_remote_addr request) (py ''unknown'')) xff (req_method request)
       (req_path request) (req_headers request) (Bytes (take 2000 data)) w"
proof -
  assume a: "headers_get (req_headers request) (py ''X-Forwarded-For'') [] = Inr xff"
    "req_get_data request = Inr data"
  obtain w' where "save_event env (or_else (req_remote_addr request) (py ''unknown'')) xff
      (req_method request) (req_path request) (req_headers request) (Bytes (take 2000 data)) w
      = Returns () w'"
    using save_event_returns by blast
  with a show ?thesis by (simp add: log_request_def Let_def)
qed

text \<open>No view function reads the world to choose its response.\<close>

lemma upload_observable: "observable (upload env request w1) = observable (upload env request w2)"
  by (simp add: upload_def Let_def os_makedirs_def file_save_def append_logfile_def logger_error_def
      split: option.splits sum.splits)

lemma dispatch_observable:
  "observable (dispatch_request ep env request w1) = observable (dispatch_request ep env request w2)"
  by (cases ep)
     (simp_all add: index_def admin_def admin_login_def api_data_def Let_def upload_observable
        split: sum.splits)

text \<open>
  Claim C1. Whatever the request holds and whatever fails outside, \<^verbatim>\<open>save_event\<close> and
  \<^verbatim>\<open>log_request\<close> return and never raise; hence the response (or the exception) of the
  matched view function behind the hook is the one the view function gives without it.
\<close>

theorem capture_never_raises:
  "(\<exists>w'. save_event env src_ip xff method path headers body w = Returns () w')
   \<and> (\<exists>w'. log_request env request w = Returns () w')
   \<and> observable (full_dispatch_request ep env request w)
       = observable (dispatch_request ep env request w)"
proof -
  obtain w1 where w1: "log_request env request w = Returns () w1"
    using log_request_returns by blast
  have "observable (full_dispatch_request ep env request w)
          = observable (dispatch_request ep env request w1)"
    by (simp add: full_dispatch_request_def w1)
  also have "\<dots> = observable (dispatch_request ep env request w)"
    by (rule dispatch_observable)
  finally show ?thesis
    using save_event_returns log_request_returns by blast
qed

subsection \<open>One sink for each event\<close>

lemma save_event_db_ok:
  "db_error env = None \<Longrightarrow>
   save_event env src_ip xff method path headers body w =
     Returns ()
       (w\<lparr>db_events := db_events w @
             [\<lparr>ev_id = Suc (db_sequence w),
               ev_ts = replace (py ''+00:00'') (py ''Z'') (utcnow_capture env),
               ev_src_ip = src_ip, ev_xff = xff, ev_method = method, ev_path = path,
               ev_headers = json_dumps (headers_dict_of headers),
               ev_body = body_text_of body\<rparr>],
           db_sequence := Suc (db_sequence w)\<rparr>)"
  by (simp add: save_event_def Let_def sqlite_insert_cases)






subsection \<open>The header summary\<close>

text \<open>
  Claim C3, as stated, fails: for a \<^verbatim>\<open>headers\<close> argument whose \<^verbatim>\<open>get\<close> raises, line 48
  makes the summary the empty dictionary, and the stored JSON text is \<^verbatim>\<open>{}\<close>.
\<close>

theorem malformed_headers_counterexample:
  "headers_dict_of (Malformed (Exception (py ''NoneType object has no attribute get''))) = []
   \<and> map ev_headers (db_events (world_of (save_event sample_env (py ''10.0.0.7'') []
        (py ''GET'') (py ''/'')
        (Malformed (Exception (py ''NoneType object has no attribute get''))) (Bytes [])
        sample_world)))
     = [py ''{}'']"
  by (simp add: headers_dict_of_def save_event_def Let_def sqlite_insert_cases sample_env_def
      sample_world_def json_dumps_def py_eval)

text \<open>
  Claim C3, amended. For a headers mapping (an object whose \<^verbatim>\<open>get\<close> returns), the summary
  has exactly the keys User-Agent, X-Forwarded-For, Content-Type and Accept, in this
  order, each with the header's value when present and the empty string when absent;
  for an object whose \<^verbatim>\<open>get\<close> raises, the summary is empty.
\<close>

theorem header_summary_keys:
  "headers_dict_of (Headers m) =
     [(py ''User-Agent'', case m (py ''User-Agent'') of None \<Rightarrow> [] | Some v \<Rightarrow> v),
      (py ''X-Forwarded-For'', case m (py ''X-Forwarded-For'') of None \<Rightarrow> [] | Some v \<Rightarrow> v),
      (py ''Content-Type'', case m (py ''Content-Type'') of None \<Rightarrow> [] | Some v \<Rightarrow> v),
      (py ''Accept'', case m (py ''Accept'') of None \<Rightarrow> [] | Some v \<Rightarrow> v)]
   \<and> headers_dict_of (Malformed e) = []
   \<and> json_dumps (headers_dict_of (Malformed e)) = py ''{}''"
  by (simp add: headers_dict_of_def json_dumps_def py_eval)

theorem header_summary_keys_witness:
  "headers_dict_of sample_headers =
     [(py ''User-Agent'', py ''curl/8.0''), (py ''X-Forwarded-For'', []),
      (py ''Content-Type'', []), (py ''Accept'', [])]"
  using header_summary_keys [of "[py ''User-Agent'' \<mapsto> py ''curl/8.0'', py ''Host'' \<mapsto> py ''h'']"]
  by (simp add: sample_headers_def py_eval)

subsection \<open>The body excerpt\<close>

text \<open>
  Claim C4. Whatever the body is, the excerpt has at most 2000 characters; a
  \<^verbatim>\<open>bytes\<close> body is first decoded as UTF-8 with U+FFFD for ill-formed input and then
  cut; the excerpt is what the inserted row holds in its column \<^verbatim>\<open>body\<close>; and through
  \<^verbatim>\<open>log_request\<close>, which passes the first 2000 bytes of the request body, the row holds
  the first 2000 characters of their decoding.
\<close>

theorem body_excerpt_capped:
  "length (body_text_of body) \<le> 2000
   \<and> body_text_of (Bytes b) = take 2000 (decode_utf8_replace b)
   \<and> (db_error env = None \<longrightarrow>
        map ev_body (db_events (world_of (save_event env src_ip xff meth path headers body w)))
          = map ev_body (db_events w) @ [body_text_of body])
   \<and> (db_error env = None \<and> req_get_data request = Inr data
        \<and> headers_get (req_headers request) (py ''X-Forwarded-For'') [] = Inr forwarded \<longrightarrow>
        map ev_body (db_events (world_of (log_request env request w)))
          = map ev_body (db_events w) @ [take 2000 (decode_utf8_replace (take 2000 data))])"
proof -
  have "length (body_text_of body) \<le> 2000"
    by (simp add: body_text_of_def split: body.splits sum.splits)
  moreover have "body_text_of (Bytes b) = take 2000 (decode_utf8_replace b)" for b
    by (simp add: body_text_of_def)
  ultimately show ?thesis
    by (simp add: save_event_db_ok log_request_calls_save_event)
qed

theorem body_excerpt_capped_witness:
  "length (body_text_of (Bytes (replicate 5000 0x41))) \<le> 2000
   \<and> body_text_of (Bytes [0x41, 0xFF, 0x42]) = [0x41, 0xFFFD, 0x42]
   \<and> map ev_body (db_events (world_of (save_event sample_env (py ''10.0.0.7'') []
        (py ''GET'') (py ''/'') sample_headers (Bytes [0x41, 0xFF, 0x42]) sample_world)))
       = [[0x41, 0xFFFD, 0x42]]
   \<and> map ev_body (db_events (world_of (log_request sample_env
        (login_request\<lparr>req_get_data := Inr [0x41, 0xFF, 0x42]\<rparr>) sample_world)))
       = [[0x41, 0xFFFD, 0x42]]"
  using body_excerpt_capped [where body = "Bytes (replicate 5000 0x41)"]
        body_excerpt_capped [where body = "Bytes [0x41, 0xFF, 0x42]" and b = "[0x41, 0xFF, 0x42]"
          and env = sample_env and src_ip = "py ''10.0.0.7''" and xff = "[]" and meth = "py ''GET''"
          and path = "py ''/''" and headers = sample_headers and w = sample_world
          and request = "login_request\<lparr>req_get_data := Inr [0x41, 0xFF, 0x42]\<rparr>"
          and data = "[0x41, 0xFF, 0x42]" and forwarded = "[]"]
  by (simp add: sample_env_def sample_world_def U_FFFD_def login_request_def sample_headers_def py_eval)

subsection \<open>The characters of a quarantine file name\<close>

lemma set_strip: "set (strip chars s) \<subseteq> set s"
proof -
  have "set (strip chars s) \<subseteq> set (dropWhile (\<lambda>c. c \<in> set chars) s)"
    unfolding strip_def set_rev using set_dropWhileD by fastforce
  also have "\<dots> \<subseteq> set s"
    using set_dropWhileD by fastforce
  finally show ?thesis .
qed

lemma secure_filename_chars: "c \<in> set (secure_filename nfkd filename) \<Longrightarrow> filename_char c"
proof -
  assume "c \<in> set (secure_filename nfkd filename)"
  then have "c \<in> set (filter filename_char
      (join (py ''_'') (split (map (\<lambda>c. if c = 47 then 32 else c) (filter (\<lambda>c. c < 128) (nfkd filename))))))"
    using set_strip unfolding secure_filename_def Let_def by blast
  then show ?thesis by simp
qed

lemma digits_chars: "c \<in> set (digits n) \<Longrightarrow> 48 \<le> c \<and> c \<le> 57"
proof (induction n arbitrary: c rule: digits.induct)
  case (1 n)
  show ?case
  proof (cases "n < 10")
    case True
    with "1.prems" show ?thesis by (subst (asm) digits.simps) simp
  next
    case False
    from "1.prems" have "c \<in> set (digits (n div 10)) \<or> c = 48 + n mod 10"
      by (subst (asm) digits.simps) (auto simp: False)
    then show ?thesis
    proof
      assume "c \<in> set (digits (n div 10))"
      with "1.IH" False show ?thesis by blast
    next
      assume "c = 48 + n mod 10"
      then show ?thesis by simp
    qed
  qed
qed

lemma str_int_chars: "c \<in> set (str_int i) \<Longrightarrow> c = 45 \<or> (48 \<le> c \<and> c \<le> 57)"
  by (auto simp: str_int_def dest: digits_chars split: if_splits)

lemma digits_nonempty: "digits n \<noteq> []"
  by (subst digits.simps) simp

lemma str_int_nonempty: "str_int i \<noteq> []"
  by (simp add: str_int_def digits_nonempty)

lemma stored_name_chars:
  assumes "c \<in> set (str_int i @ py ''_'' @ secure_filename nfkd filename)"
  shows "c \<noteq> 47 \<and> c \<noteq> 92 \<and> c \<noteq> 0"
proof -
  from assms consider "c \<in> set (str_int i)" | "c = 95" | "c \<in> set (secure_filename nfkd filename)"
    by (auto simp: py_eval)
  then show ?thesis
  proof cases
    case 1
    then show ?thesis using str_int_chars by fastforce
  next
    case 2
    then show ?thesis by simp
  next
    case 3
    then have "filename_char c" by (rule secure_filename_chars)
    then show ?thesis by (auto simp: filename_char_def)
  qed
qed

lemma os_path_join_relative:
  "b \<noteq> [] \<Longrightarrow> hd b \<noteq> 47 \<Longrightarrow> os_path_join QUARANTINE_DIR b = QUARANTINE_DIR @ py ''/'' @ b"
  by (simp add: os_path_join_def QUARANTINE_DIR_def py_eval)

lemma stored_path:
  "os_path_join QUARANTINE_DIR (str_int i @ py ''_'' @ fname)
     = QUARANTINE_DIR @ py ''/'' @ str_int i @ py ''_'' @ fname"
proof -
  have "hd (str_int i @ py ''_'' @ fname) \<in> set (str_int i)"
    using str_int_nonempty by simp
  then have "hd (str_int i @ py ''_'' @ fname) \<noteq> 47"
    using str_int_chars by fastforce
  then show ?thesis
    using os_path_join_relative [of "str_int i @ py ''_'' @ fname"] str_int_nonempty by simp
qed

subsection \<open>The paths through \<^verbatim>\<open>upload\<close>\<close>

lemma upload_stores:
  "req_files request = Inr files \<Longrightarrow> files (py ''file'') = Some file \<Longrightarrow> file_truthy file \<Longrightarrow>
   makedirs_error env = None \<Longrightarrow> file_save_error env = None \<Longrightarrow> note_write_error env = None \<Longrightarrow>
   upload env request w =
     Returns (py ''OK'', 200)
       (w\<lparr>file_system := (file_system w)
             (os_path_join QUARANTINE_DIR (str_int (time_time env) @ py ''_'' @
                secure_filename (unicode_nfkd env) (or_else (fs_filename file) (py ''upload'')))
              \<mapsto> fs_stream file),
           logfile := logfile w @ utcnow_upload env @ py '' | uploaded_file_saved: '' @
              os_path_join QUARANTINE_DIR (str_int (time_time env) @ py ''_'' @
                secure_filename (unicode_nfkd env) (or_else (fs_filename file) (py ''upload''))) @ [10]\<rparr>)"
  by (simp add: upload_def Let_def os_makedirs_def file_save_def append_logfile_cases)

lemma upload_note_fails:
  "req_files request = Inr files \<Longrightarrow> files (py ''file'') = Some file \<Longrightarrow> file_truthy file \<Longrightarrow>
   makedirs_error env = None \<Longrightarrow> file_save_error env = None \<Longrightarrow> note_write_error env = Some e \<Longrightarrow>
   upload env request w =
     Returns (py ''Failed'', 500)
       (w\<lparr>file_system := (file_system w)
             (os_path_join QUARANTINE_DIR (str_int (time_time env) @ py ''_'' @
                secure_filename (unicode_nfkd env) (or_else (fs_filename file) (py ''upload'')))
              \<mapsto> fs_stream file),
           app_log := app_log w @ [py ''Failed to save upload: '' @ exn_str e]\<rparr>)"
  by (simp add: upload_def Let_def os_makedirs_def file_save_def append_logfile_cases logger_error_def)

lemma upload_save_fails:
  "req_files request = Inr files \<Longrightarrow> files (py ''file'') = Some file \<Longrightarrow> file_truthy file \<Longrightarrow>
   makedirs_error env = None \<Longrightarrow> file_save_error env = Some e \<Longrightarrow>
   upload env request w =
     Returns (py ''Failed'', 500) (w\<lparr>app_log := app_log w @ [py ''Failed to save upload: '' @ exn_str e]\<rparr>)"
  by (simp add: upload_def Let_def os_makedirs_def file_save_def append_logfile_cases logger_error_def)

lemma upload_makedirs_fails:
  "req_files request = Inr files \<Longrightarrow> files (py ''file'') = Some file \<Longrightarrow> file_truthy file \<Longrightarrow>
   makedirs_error env = Some e \<Longrightarrow> upload env request w = Raises e w"
  by (simp add: upload_def Let_def os_makedirs_def)

lemma upload_parse_fails:
  "req_files request = Inl e \<Longrightarrow> upload env request w = Raises e w"
  by (simp add: upload_def)

lemma upload_no_file:
  "req_files request = Inr files \<Longrightarrow> files (py ''file'') = None \<Longrightarrow>
   upload env request w = Returns (py ''OK'', 200) w"
  by (simp add: upload_def)

lemma upload_falsy_file:
  "req_files request = Inr files \<Longrightarrow> files (py ''file'') = Some file \<Longrightarrow> \<not> file_truthy file \<Longrightarrow>
   upload env request w = Returns (py ''OK'', 200) w"
  by (simp add: upload_def)

lemma upload_other_paths:
  assumes "req_files request = Inr files" and "files (py ''file'') = Some file"
    and "p \<noteq> os_path_join QUARANTINE_DIR (str_int (time_time env) @ py ''_'' @
                secure_filename (unicode_nfkd env) (or_else (fs_filename file) (py ''upload'')))"
  shows "file_system (world_of (upload env request w)) p = file_system w p"
proof (cases "file_truthy file")
  case False
  with assms show ?thesis by (simp add: upload_falsy_file)
next
  case True
  show ?thesis
  proof (cases "makedirs_error env")
    case (Some e)
    with assms True show ?thesis by (simp add: upload_makedirs_fails)
  next
    case None
    show ?thesis
    proof (cases "file_save_error env")
      case (Some e)
      with assms True None show ?thesis by (simp add: upload_save_fails)
    next
      case save: None
      show ?thesis
      proof (cases "note_write_error env")
        case (Some e)
        with assms True None save show ?thesis by (simp add: upload_note_fails)
      next
        case wr: None
        with assms True None save show ?thesis by (simp add: upload_stores)
      qed
    qed
  qed
qed

lemmas upload_eval =
  py_eval upload_def upload_request_def file_truthy_def sample_env_def sample_world_def sample_file_def
  or_else_def secure_filename_def split_def strip_def filename_char_def is_space_def str_int_def
  digits.simps os_path_join_def QUARANTINE_DIR_def os_makedirs_def file_save_def
  append_logfile_def logger_error_def disk_full_def too_large_def Let_def

subsection \<open>The base name of a stored file\<close>

text \<open>
  Claim C5 does not hold of the code. Line 141 applies the default before
  sanitising, \<^verbatim>\<open>secure_filename(file.filename or 'upload')\<close>, so a name that
  \<^verbatim>\<open>secure_filename\<close> strips entirely, such as \<^verbatim>\<open>..\<close>, gives the empty base name and the
  file is stored as \<^verbatim>\<open>quarantine/1700000000_\<close>; and a file submitted with an empty name
  is false in \<^verbatim>\<open>if file:\<close>, so nothing is stored under any name.
\<close>

theorem upload_empty_base_name:
  "secure_filename (unicode_nfkd sample_env) (or_else (Some (py ''..'')) (py ''upload'')) = []
   \<and> observable (upload sample_env (upload_request \<lparr>fs_filename = Some (py ''..''), fs_stream = [104, 105]\<rparr>)
        sample_world) = Inr (py ''OK'', 200)
   \<and> file_system (world_of (upload sample_env
        (upload_request \<lparr>fs_filename = Some (py ''..''), fs_stream = [104, 105]\<rparr>) sample_world))
        (py ''quarantine/1700000000_'') = Some [104, 105]
   \<and> upload sample_env (upload_request \<lparr>fs_filename = Some [], fs_stream = [104, 105]\<rparr>) sample_world
       = Returns (py ''OK'', 200) sample_world"
  by (simp add: upload_eval)

text \<open>
  Claim C6. The file is stored under \<^verbatim>\<open>quarantine/<unix_seconds>_<sanitized_name>\<close>: the
  name holds neither a slash nor a backslash and is neither \<^verbatim>\<open>.\<close> nor \<^verbatim>\<open>..\<close>, no other
  path of the file system is touched by the handler, and when directory and file
  are written the content is at that path.
\<close>

theorem quarantine_name_safe:
  "let name = str_int (time_time env) @ py ''_'' @
                secure_filename (unicode_nfkd env) (or_else (fs_filename fs) (py ''upload''));
       w' = world_of (upload env request w)
   in 47 \<notin> set name \<and> 92 \<notin> set name \<and> name \<noteq> py ''.'' \<and> name \<noteq> py ''..''
    \<and> (req_files request = Inr uploads \<and> uploads (py ''file'') = Some fs \<longrightarrow>
         (\<forall>p. p \<noteq> QUARANTINE_DIR @ py ''/'' @ name \<longrightarrow> file_system w' p = file_system w p)
         \<and> (file_truthy fs \<and> makedirs_error env = None \<and> file_save_error env = None \<longrightarrow>
              file_system w' (QUARANTINE_DIR @ py ''/'' @ name) = Some (fs_stream fs)))"
proof -
  define name where "name = str_int (time_time env) @ py ''_'' @
                secure_filename (unicode_nfkd env) (or_else (fs_filename fs) (py ''upload''))"
  have chars: "47 \<notin> set name" "92 \<notin> set name"
    using stored_name_chars unfolding name_def by blast+
  have us: "95 \<in> set name"
    by (simp add: name_def py_eval)
  then have dots: "name \<noteq> py ''.''" "name \<noteq> py ''..''"
    by (auto simp: py_eval)
  have path: "os_path_join QUARANTINE_DIR name = QUARANTINE_DIR @ py ''/'' @ name"
    unfolding name_def by (simp add: stored_path)
  have other: "file_system (world_of (upload env request w)) p = file_system w p"
    if "req_files request = Inr uploads" "uploads (py ''file'') = Some fs"
      "p \<noteq> QUARANTINE_DIR @ py ''/'' @ name" for p
    using that upload_other_paths [of request uploads fs p env w] path unfolding name_def by simp
  have stored: "file_system (world_of (upload env request w)) (QUARANTINE_DIR @ py ''/'' @ name)
      = Some (fs_stream fs)"
    if "req_files request = Inr uploads" "uploads (py ''file'') = Some fs" "file_truthy fs"
      "makedirs_error env = None" "file_save_error env = None"
  proof (cases "note_write_error env")
    case None
    with that show ?thesis
      using path unfolding name_def by (simp add: upload_stores)
  next
    case (Some e)
    with that show ?thesis
      using path unfolding name_def by (simp add: upload_note_fails)
  qed
  show ?thesis
    unfolding Let_def name_def [symmetric]
    using chars dots other stored by blast
qed

theorem quarantine_name_safe_witness:
  "47 \<notin> set (py ''1700000000_etc_passwd'')
   \<and> file_system (world_of (upload sample_env (upload_request sample_file) sample_world))
        (py ''quarantine/1700000000_etc_passwd'') = Some (fs_stream sample_file)
   \<and> file_system (world_of (upload sample_env (upload_request sample_file) sample_world))
        (py ''/etc/passwd'') = None"
  using quarantine_name_safe [where env = sample_env and fs = sample_file
      and request = "upload_request sample_file" and w = sample_world
      and uploads = "[py ''file'' \<mapsto> sample_file]"]
  by (simp add: upload_eval)

subsection \<open>The responses of \<^verbatim>\<open>upload\<close>\<close>

text \<open>
  Claim C7 does not hold of the code. \<^verbatim>\<open>os.makedirs\<close> at line 142 stands before the
  \<^verbatim>\<open>try\<close> of line 144: when it raises, the handler raises too instead of returning
  \<^verbatim>\<open>"Failed", 500\<close>. (When \<^verbatim>\<open>file.save\<close> or the note append raises, it does return that,
  see \<open>upload_save_fails\<close> and \<open>upload_note_fails\<close>, and \<open>upload_stores\<close> for success.)
\<close>

theorem upload_makedirs_failure_raises:
  "upload (sample_env\<lparr>makedirs_error := Some disk_full\<rparr>) (upload_request sample_file) sample_world
     = Raises disk_full sample_world
   \<and> observable (upload (sample_env\<lparr>makedirs_error := Some disk_full\<rparr>) (upload_request sample_file)
        sample_world) \<noteq> Inr (py ''Failed'', 500)"
  by (simp add: upload_eval)

text \<open>
  Claim C9. When \<^verbatim>\<open>file.save\<close> succeeds and the note append raises, the handler answers
  \<^verbatim>\<open>"Failed", 500\<close>, the uploaded content is in the quarantine directory all the same,
  and the log file is unchanged.
\<close>

theorem upload_failed_but_stored:
  "req_files request = Inr uploads \<and> uploads (py ''file'') = Some fs \<and> file_truthy fs
   \<and> makedirs_error env = None \<and> file_save_error env = None \<and> note_write_error env = Some e \<longrightarrow>
     observable (upload env request w) = Inr (py ''Failed'', 500)
     \<and> file_system (world_of (upload env request w))
         (QUARANTINE_DIR @ py ''/'' @ str_int (time_time env) @ py ''_'' @
            secure_filename (unicode_nfkd env) (or_else (fs_filename fs) (py ''upload'')))
       = Some (fs_stream fs)
     \<and> logfile (world_of (upload env request w)) = logfile w"
  by (simp add: upload_note_fails stored_path)

theorem upload_failed_but_stored_witness:
  "observable (upload (sample_env\<lparr>note_write_error := Some disk_full\<rparr>) (upload_request sample_file)
      sample_world) = Inr (py ''Failed'', 500)
   \<and> file_system (world_of (upload (sample_env\<lparr>note_write_error := Some disk_full\<rparr>)
        (upload_request sample_file) sample_world)) (py ''quarantine/1700000000_etc_passwd'')
       = Some [104, 101, 108, 108, 111]"
  using upload_failed_but_stored [where env = "sample_env\<lparr>note_write_error := Some disk_full\<rparr>"
      and fs = sample_file and request = "upload_request sample_file" and w = sample_world
      and e = disk_full and uploads = "[py ''file'' \<mapsto> sample_file]"]
  by (simp add: upload_eval)

text \<open>
  Claim C10, as stated, fails: line 139 reads \<^verbatim>\<open>request.files\<close>, which parses the body
  inside the view; for a POST without a field \<^verbatim>\<open>file\<close> whose form exceeds werkzeug's
  limits the parse raises \<^verbatim>\<open>RequestEntityTooLarge\<close>, and the handler raises instead of
  answering \<^verbatim>\<open>"OK", 200\<close>.
\<close>

theorem upload_unparsed_form_counterexample:
  "upload sample_env (login_request\<lparr>req_path := py ''/upload'', req_files := Inl too_large\<rparr>)
     sample_world = Raises too_large sample_world
   \<and> observable (upload sample_env
        (login_request\<lparr>req_path := py ''/upload'', req_files := Inl too_large\<rparr>) sample_world)
       \<noteq> Inr (py ''OK'', 200)"
  by (simp add: upload_def)

text \<open>
  Claim C10, amended. When \<^verbatim>\<open>request.files\<close> parses and holds no field named \<^verbatim>\<open>file\<close>,
  the handler answers \<^verbatim>\<open>"OK", 200\<close> and leaves the world as it is: no file is written, no
  note appended, whatever the file system would have done. When the parse raises, the
  handler raises that exception, and the world is as it was as well.
\<close>

theorem upload_without_file_field:
  "(req_files request = Inr uploads \<and> uploads (py ''file'') = None \<longrightarrow>
      upload env request w = Returns (py ''OK'', 200) w)
   \<and> (req_files request = Inl e \<longrightarrow> upload env request w = Raises e w)"
  by (simp add: upload_no_file upload_parse_fails)

theorem upload_without_file_field_witness:
  "upload (sample_env\<lparr>makedirs_error := Some disk_full, file_save_error := Some disk_full\<rparr>)
        login_request sample_world = Returns (py ''OK'', 200) sample_world
   \<and> upload sample_env (login_request\<lparr>req_files := Inl too_large\<rparr>) sample_world
       = Raises too_large sample_world"
  using upload_without_file_field [where request = login_request
      and env = "sample_env\<lparr>makedirs_error := Some disk_full, file_save_error := Some disk_full\<rparr>"
      and w = sample_world and uploads = Map.empty]
    upload_without_file_field [where request = "login_request\<lparr>req_files := Inl too_large\<rparr>"
      and env = sample_env and w = sample_world and e = too_large]
  by (simp add: login_request_def)

subsection \<open>The fake login\<close>

text \<open>
  Claim C8, as stated, fails: line 126 reads \<^verbatim>\<open>request.form\<close>, which parses the body
  inside the view; for a POST whose form exceeds werkzeug's limits (too many parts,
  an oversized field such as a very long password, a body above
  \<^verbatim>\<open>MAX_CONTENT_LENGTH\<close>) the parse raises \<^verbatim>\<open>RequestEntityTooLarge\<close>, and the handler
  raises instead of answering with status 401.
\<close>

theorem admin_login_unparsed_form_counterexample:
  "req_method (login_request\<lparr>req_form := Inl too_large\<rparr>) = py ''POST''
   \<and> admin_login (login_request\<lparr>req_form := Inl too_large\<rparr>) sample_world
       = Raises too_large sample_world"
  by (simp add: admin_login_def login_request_def py_eval)

text \<open>
  Claim C8, amended. A POST to \<^verbatim>\<open>/admin/login\<close> whose form parses is answered with status
  401 and the body \<^verbatim>\<open><p>Login failed for {username}</p>\<close>, which holds the submitted
  user name; the outcome is the same for every parsed form with this user name,
  whatever password it holds or none, and the world is unchanged. When the parse
  raises, the handler raises that exception.
\<close>

theorem admin_login_rejects:
  "req_method request = py ''POST'' \<longrightarrow>
     (req_form request = Inr submitted \<longrightarrow>
        admin_login request w =
          Returns (py ''<p>Login failed for '' @ format_field (submitted (py ''username''))
                     @ py ''</p>'', 401) w
        \<and> (\<forall>u. submitted (py ''username'') = Some u \<longrightarrow>
              observable (admin_login request w)
                = Inr (py ''<p>Login failed for '' @ u @ py ''</p>'', 401))
        \<and> admin_login (request\<lparr>req_form := Inr (submitted(py ''password'' := password))\<rparr>) w
            = admin_login request w)
     \<and> (req_form request = Inl e \<longrightarrow> admin_login request w = Raises e w)"
  by (simp add: admin_login_def Let_def format_field_def py_eval)

theorem admin_login_rejects_witness:
  "req_method login_request = py ''POST''
   \<and> admin_login login_request sample_world
       = Returns (py ''<p>Login failed for admin</p>'', 401) sample_world
   \<and> admin_login
        (login_request\<lparr>req_form :=
           Inr [py ''username'' \<mapsto> py ''admin'', py ''password'' \<mapsto> py ''hunter2'']\<rparr>)
        sample_world = Returns (py ''<p>Login failed for admin</p>'', 401) sample_world
   \<and> admin_login (login_request\<lparr>req_form := Inl too_large\<rparr>) sample_world
       = Raises too_large sample_world"
  using admin_login_rejects [where request = login_request and w = sample_world
      and password = "Some (py ''hunter2'')"
      and submitted = "[py ''username'' \<mapsto> py ''admin'', py ''password'' \<mapsto> py ''x'']"]
    admin_login_rejects [where request = "login_request\<lparr>req_form := Inl too_large\<rparr>"
      and w = sample_world and e = too_large]
  by (simp add: login_request_def format_field_def py_eval)

end
